theory Spec2Isabelle
  imports Main
begin

section \<open>The accountList component (lwc/accountList/accountList.js)\<close>

text \<open>
  The component is a class with mutable fields, event handlers that mutate them, and
  three promise chains (create, delete, update) whose continuations run when the remote
  Apex call settles. The model is a record of the fields, one function per handler and
  per continuation, and a trace of the effects that leave the component: dispatched
  toast events, Apex calls and \<open>refreshApex\<close> requests.
\<close>

subsection \<open>Values that cross the component's boundary\<close>

text \<open>
  An Account as the Apex controller serialises it: \<open>Id\<close> is always present, every
  other field is a string or absent (\<open>undefined\<close> in JavaScript, \<open>None\<close> here).
\<close>

record account =
  Id' :: string
  Name :: "string option"
  Industry :: "string option"
  Phone :: "string option"
  Description :: "string option"
  Site :: "string option"

text \<open>
  The reason a remote call is rejected with: an object whose \<open>body\<close> may be absent and
  whose \<open>body.message\<close> may be absent.
\<close>

record error_body =
  message :: "string option"

record apex_error =
  body :: "error_body option"

text \<open>
  The object the wire adapter provisions: \<open>{data, error}\<close>, either of which may be
  \<open>undefined\<close>. A JavaScript array is truthy even when it is empty, and an error
  object is truthy, so \<open>if (result.data)\<close> and \<open>if (result.error)\<close> test presence.
\<close>

record wire_result =
  data :: "account list option"
  wire_error :: "apex_error option"

datatype js_exn = TypeError

text \<open>
  \<open>new ShowToastEvent({title, message, variant})\<close>. The message is \<open>None\<close> when
  the expression passed for it evaluates to \<open>undefined\<close>.
\<close>

datatype toast_event = ShowToastEvent string "string option" string

text \<open>
  The imported Apex methods with their arguments: \<open>createAccount({name, industry, phone,
  description, site})\<close>, \<open>updateAccount({accountId, name, industry, phone, description,
  site})\<close>, \<open>deleteAccount({accountId})\<close>. \<open>event.target.dataset.id\<close> is a string or
  \<open>undefined\<close>.
\<close>

datatype apex_call =
    CreateAccount string string string string string
  | UpdateAccount "string option" string string string string string
  | DeleteAccount "string option"

datatype effect =
    DispatchEvent toast_event
  | ApexCall apex_call
  | RefreshApex "wire_result option"

text \<open>How a promise settles; the value it resolves with is never read by the component.\<close>

datatype outcome = Resolved | Rejected apex_error

subsection \<open>The component's fields\<close>

record component =
  accounts :: "account list option"
  error :: "apex_error option"
  isLoading :: bool
  accountName :: string
  accountIndustry :: string
  accountPhone :: string
  accountDescription :: string
  accountSite :: string
  editRecordId :: "string option"
  editName :: string
  editIndustry :: string
  editPhone :: string
  editDescription :: string
  editSite :: string
  wiredAccountsResult :: "wire_result option"
  isEditingThisRow :: bool
  trace :: "effect list"

text \<open>The field initialisers of the class; \<open>wiredAccountsResult\<close> is not declared and
  so starts \<open>undefined\<close>.\<close>

definition initial :: component where
  "initial = \<lparr> accounts = None, error = None, isLoading = False,
      accountName = '''', accountIndustry = '''', accountPhone = '''',
      accountDescription = '''', accountSite = '''',
      editRecordId = None, editName = '''', editIndustry = '''', editPhone = '''',
      editDescription = '''', editSite = '''',
      wiredAccountsResult = None, isEditingThisRow = False, trace = [] \<rparr>"

subsection \<open>JavaScript operators the handlers use\<close>

text \<open>\<open>!s\<close> on a string is true exactly for the empty string.\<close>

definition truthy :: "string \<Rightarrow> bool" where
  "truthy v = (v \<noteq> '''')"

text \<open>\<open>!v\<close> for \<open>null\<close> or a string.\<close>

definition truthy_opt :: "string option \<Rightarrow> bool" where
  "truthy_opt v = (case v of None \<Rightarrow> False | Some x \<Rightarrow> truthy x)"

text \<open>\<open>v || d\<close> for \<open>v\<close> a string or \<open>undefined\<close>: \<open>d\<close> when \<open>v\<close> is falsy.\<close>

definition or_else :: "string option \<Rightarrow> string \<Rightarrow> string" where
  "or_else v d = (case v of None \<Rightarrow> d | Some x \<Rightarrow> if truthy x then x else d)"

text \<open>\<open>error.body?.message\<close>: \<open>undefined\<close> when the body is absent.\<close>

definition body_message_opt :: "apex_error \<Rightarrow> string option" where
  "body_message_opt e = (case body e of None \<Rightarrow> None | Some b \<Rightarrow> message b)"

text \<open>\<open>error.body.message\<close>: reading a property of \<open>undefined\<close> throws.\<close>

definition body_message :: "apex_error \<Rightarrow> js_exn + string option" where
  "body_message e = (case body e of None \<Rightarrow> Inl TypeError | Some b \<Rightarrow> Inr (message b))"

subsection \<open>Effects\<close>

definition emit :: "effect \<Rightarrow> component \<Rightarrow> component" where
  "emit x s = s\<lparr>trace := trace s @ [x]\<rparr>"

definition showToast :: "string \<Rightarrow> string option \<Rightarrow> string \<Rightarrow> component \<Rightarrow> component" where
  "showToast t m v s = emit (DispatchEvent (ShowToastEvent t m v)) s"

definition refreshApex :: "component \<Rightarrow> component" where
  "refreshApex s = emit (RefreshApex (wiredAccountsResult s)) s"

subsection \<open>The wired list\<close>

definition wiredAccounts :: "wire_result \<Rightarrow> component \<Rightarrow> component" where
  "wiredAccounts result s =
     (let s1 = s\<lparr>wiredAccountsResult := Some result\<rparr> in
      case data result of
        Some d \<Rightarrow> s1\<lparr>accounts := Some d, error := None\<rparr>
      | None \<Rightarrow>
          (case wire_error result of
             Some e \<Rightarrow>
               showToast ''Error'' (Some ''Error loading accounts'') ''error''
                 (s1\<lparr>error := Some e, accounts := None\<rparr>)
           | None \<Rightarrow> s1))"

subsection \<open>Input changes of the create form\<close>

definition handleNameChange :: "string \<Rightarrow> component \<Rightarrow> component" where
  "handleNameChange v s = s\<lparr>accountName := v\<rparr>"

definition handleIndustryChange :: "string \<Rightarrow> component \<Rightarrow> component" where
  "handleIndustryChange v s = s\<lparr>accountIndustry := v\<rparr>"

definition handlePhoneChange :: "string \<Rightarrow> component \<Rightarrow> component" where
  "handlePhoneChange v s = s\<lparr>accountPhone := v\<rparr>"

definition handleDescriptionChange :: "string \<Rightarrow> component \<Rightarrow> component" where
  "handleDescriptionChange v s = s\<lparr>accountDescription := v\<rparr>"

definition handleSiteChange :: "string \<Rightarrow> component \<Rightarrow> component" where
  "handleSiteChange v s = s\<lparr>accountSite := v\<rparr>"

subsection \<open>Promise chains\<close>

text \<open>
  \<open>p.then(f).catch(g).finally(h)\<close>, where \<open>f\<close> returns the promise of
  \<open>refreshApex\<close>. When \<open>p\<close> is rejected \<open>f\<close> is skipped and \<open>g\<close> runs on the reason;
  when \<open>p\<close> resolves \<open>f\<close> runs, and \<open>g\<close> runs only if the refresh is then rejected.
  \<open>h\<close> runs last in every case, also when \<open>g\<close> throws; the exception \<open>g\<close> threw is
  then the chain's unhandled rejection, returned beside the state.
\<close>

definition catch_finally ::
  "(apex_error \<Rightarrow> component \<Rightarrow> js_exn + component) \<Rightarrow> (component \<Rightarrow> component) \<Rightarrow>
     apex_error \<Rightarrow> component \<Rightarrow> component \<times> js_exn option" where
  "catch_finally g h e s =
     (case g e s of Inl x \<Rightarrow> (h s, Some x) | Inr s' \<Rightarrow> (h s', None))"

definition then_catch_finally ::
  "(component \<Rightarrow> component) \<Rightarrow> (apex_error \<Rightarrow> component \<Rightarrow> js_exn + component) \<Rightarrow>
     (component \<Rightarrow> component) \<Rightarrow> outcome \<Rightarrow> outcome \<Rightarrow> component \<Rightarrow>
     component \<times> js_exn option" where
  "then_catch_finally f g h call refresh s =
     (case call of
        Rejected e \<Rightarrow> catch_finally g h e s
      | Resolved \<Rightarrow>
          (let s1 = f s in
           case refresh of
             Resolved \<Rightarrow> (h s1, None)
           | Rejected e \<Rightarrow> catch_finally g h e s1))"

subsection \<open>Create\<close>

definition handleCreateAccount :: "component \<Rightarrow> component" where
  "handleCreateAccount s =
     (if \<not> truthy (accountName s)
      then showToast ''Error'' (Some ''Account name is required'') ''error'' s
      else emit (ApexCall (CreateAccount (accountName s) (accountIndustry s) (accountPhone s)
                   (accountDescription s) (accountSite s)))
             (s\<lparr>isLoading := True\<rparr>))"

definition createAccount_then :: "component \<Rightarrow> component" where
  "createAccount_then s =
     refreshApex
       ((showToast ''Success'' (Some ''Account created successfully'') ''success'' s)
          \<lparr>accountName := '''', accountIndustry := '''', accountPhone := '''',
           accountDescription := '''', accountSite := ''''\<rparr>)"

definition createAccount_catch :: "apex_error \<Rightarrow> component \<Rightarrow> js_exn + component" where
  "createAccount_catch e s =
     (case body_message e of
        Inl x \<Rightarrow> Inl x
      | Inr m \<Rightarrow> Inr (showToast ''Error'' m ''error'' s))"

definition clear_loading :: "component \<Rightarrow> component" where
  "clear_loading s = s\<lparr>isLoading := False\<rparr>"

definition createAccount_settled :: "outcome \<Rightarrow> outcome \<Rightarrow> component \<Rightarrow> component \<times> js_exn option" where
  "createAccount_settled = then_catch_finally createAccount_then createAccount_catch clear_loading"

subsection \<open>Delete\<close>

text \<open>\<open>confirm(...)\<close> blocks and returns the user's answer, here the argument \<open>confirmed\<close>.\<close>

definition handleDeleteAccount :: "string option \<Rightarrow> bool \<Rightarrow> component \<Rightarrow> component" where
  "handleDeleteAccount accountId confirmed s =
     (if confirmed
      then emit (ApexCall (DeleteAccount accountId)) (s\<lparr>isLoading := True\<rparr>)
      else s)"

definition deleteAccount_then :: "component \<Rightarrow> component" where
  "deleteAccount_then s =
     refreshApex (showToast ''Success'' (Some ''Account deleted successfully'') ''success'' s)"

definition deleteAccount_catch :: "apex_error \<Rightarrow> component \<Rightarrow> js_exn + component" where
  "deleteAccount_catch e s =
     Inr (showToast ''Error'' (Some (or_else (body_message_opt e) ''Delete failed'')) ''error'' s)"

definition deleteAccount_settled :: "outcome \<Rightarrow> outcome \<Rightarrow> component \<Rightarrow> component \<times> js_exn option" where
  "deleteAccount_settled = then_catch_finally deleteAccount_then deleteAccount_catch clear_loading"

subsection \<open>The row flag\<close>

text \<open>
  \<open>current\<close> is the \<open>data-current-id\<close> of the first card the selector finds, or
  \<open>None\<close> when no card carries the attribute.
\<close>

definition renderedCallback :: "string option \<Rightarrow> component \<Rightarrow> component" where
  "renderedCallback current s =
     (case current of
        Some currentId \<Rightarrow> s\<lparr>isEditingThisRow := (editRecordId s = Some currentId)\<rparr>
      | None \<Rightarrow> s\<lparr>isEditingThisRow := False\<rparr>)"

subsection \<open>Edit\<close>

text \<open>
  \<open>this.accounts.find(...)\<close> throws a TypeError when \<open>this.accounts\<close> is
  \<open>undefined\<close>, before anything is assigned. \<open>a.Id === accountId\<close> compares a string
  with a string or \<open>undefined\<close>.
\<close>

definition handleStartEdit :: "string option \<Rightarrow> component \<Rightarrow> js_exn + component" where
  "handleStartEdit accountId s =
     (case accounts s of
        None \<Rightarrow> Inl TypeError
      | Some as \<Rightarrow>
          (case find (\<lambda>a. Some (Id' a) = accountId) as of
             None \<Rightarrow> Inr (showToast ''Error'' (Some ''Account not found in the current list'') ''error'' s)
           | Some r \<Rightarrow>
               Inr (s\<lparr>editRecordId := accountId,
                      editName := or_else (Name r) '''',
                      editIndustry := or_else (Industry r) '''',
                      editPhone := or_else (Phone r) '''',
                      editDescription := or_else (Description r) '''',
                      editSite := or_else (Site r) ''''\<rparr>)))"

definition handleEditFieldChange :: "string \<Rightarrow> string \<Rightarrow> component \<Rightarrow> component" where
  "handleEditFieldChange field v s =
     (let s1 = (if field = ''editName'' then s\<lparr>editName := v\<rparr> else s);
          s2 = (if field = ''editIndustry'' then s1\<lparr>editIndustry := v\<rparr> else s1);
          s3 = (if field = ''editPhone'' then s2\<lparr>editPhone := v\<rparr> else s2);
          s4 = (if field = ''editDescription'' then s3\<lparr>editDescription := v\<rparr> else s3)
      in if field = ''editSite'' then s4\<lparr>editSite := v\<rparr> else s4)"

definition handleCancelEdit :: "component \<Rightarrow> component" where
  "handleCancelEdit s =
     s\<lparr>editRecordId := None, editName := '''', editIndustry := '''', editPhone := '''',
       editDescription := '''', editSite := ''''\<rparr>"

definition handleSaveEdit :: "component \<Rightarrow> component" where
  "handleSaveEdit s =
     (if \<not> truthy_opt (editRecordId s)
      then showToast ''Error'' (Some ''No record selected for update'') ''error'' s
      else if \<not> truthy (editName s)
      then showToast ''Error'' (Some ''Name is required'') ''error'' s
      else emit (ApexCall (UpdateAccount (editRecordId s) (editName s) (editIndustry s)
                   (editPhone s) (editDescription s) (editSite s)))
             (s\<lparr>isLoading := True\<rparr>))"

definition updateAccount_then :: "component \<Rightarrow> component" where
  "updateAccount_then s =
     refreshApex
       (handleCancelEdit
          (showToast ''Success'' (Some ''Account updated successfully'') ''success'' s))"

definition updateAccount_catch :: "apex_error \<Rightarrow> component \<Rightarrow> js_exn + component" where
  "updateAccount_catch e s =
     Inr (showToast ''Error'' (Some (or_else (body_message_opt e) ''Update failed'')) ''error'' s)"

definition updateAccount_settled :: "outcome \<Rightarrow> outcome \<Rightarrow> component \<Rightarrow> component \<times> js_exn option" where
  "updateAccount_settled = then_catch_finally updateAccount_then updateAccount_catch clear_loading"

subsection \<open>Observations on a trace\<close>

fun is_toast :: "effect \<Rightarrow> bool" where
  "is_toast (DispatchEvent _) = True"
| "is_toast _ = False"

fun is_apex_call :: "effect \<Rightarrow> bool" where
  "is_apex_call (ApexCall _) = True"
| "is_apex_call _ = False"

fun is_refresh :: "effect \<Rightarrow> bool" where
  "is_refresh (RefreshApex _) = True"
| "is_refresh _ = False"

text \<open>The six values of the edit form, and the five of the create form.\<close>

definition edit_form :: "component \<Rightarrow> string option \<times> string \<times> string \<times> string \<times> string \<times> string" where
  "edit_form s = (editRecordId s, editName s, editIndustry s, editPhone s, editDescription s, editSite s)"

definition create_form :: "component \<Rightarrow> string \<times> string \<times> string \<times> string \<times> string" where
  "create_form s = (accountName s, accountIndustry s, accountPhone s, accountDescription s, accountSite s)"

subsection \<open>Sequencing handlers\<close>

text \<open>
  The state a handler leaves behind: an exception that escapes an event handler goes to
  the event loop, and the component keeps the fields it had when the exception was
  thrown. In \<open>handleStartEdit\<close> the throw precedes every assignment.
\<close>

definition after_handler :: "component \<Rightarrow> js_exn + component \<Rightarrow> component" where
  "after_handler s r = (case r of Inl _ \<Rightarrow> s | Inr s' \<Rightarrow> s')"

text \<open>Exactly one of the cached collection and the error slot holds a value.\<close>

definition exactly_one_populated :: "component \<Rightarrow> bool" where
  "exactly_one_populated s = ((accounts s \<noteq> None) \<noteq> (error s \<noteq> None))"

subsection \<open>Concrete inputs\<close>

definition acme :: account where
  "acme = \<lparr> Id' = ''1'', Name = Some ''Acme'', Industry = None, Phone = None,
            Description = None, Site = None \<rparr>"

definition listed :: component where
  "listed = initial\<lparr>accounts := Some [acme]\<rparr>"

definition no_body :: apex_error where
  "no_body = \<lparr> body = None \<rparr>"

definition no_message :: apex_error where
  "no_message = \<lparr> body = Some \<lparr> message = None \<rparr> \<rparr>"

definition filled :: component where
  "filled = initial\<lparr>accountName := ''Acme''\<rparr>"

definition editing :: component where
  "editing = listed\<lparr>editRecordId := Some ''1'', editName := ''Acme''\<rparr>"



section \<open>Properties\<close>

lemmas handler_defs =
  emit_def showToast_def refreshApex_def truthy_def truthy_opt_def or_else_def
  body_message_def body_message_opt_def clear_loading_def
  catch_finally_def then_catch_finally_def edit_form_def create_form_def

subsection \<open>Helper facts\<close>

text \<open>With the empty string as the default, \<open>v || ''\<close> is \<open>v\<close> when present.\<close>

lemma or_else_empty: "or_else v '''' = (case v of None \<Rightarrow> '''' | Some x \<Rightarrow> x)"
  by (simp add: or_else_def truthy_def split: option.splits)

text \<open>Whatever the continuations do, a chain that ends in \<open>clear_loading\<close> ends not loading.\<close>

lemma settled_clears_loading:
  "\<not> isLoading (fst (then_catch_finally f g clear_loading call refresh t))"
  by (simp add: then_catch_finally_def catch_finally_def clear_loading_def Let_def
      split: outcome.splits sum.splits)

text \<open>
  A rejected update or delete dispatches one error toast, with the message of the
  error's body when there is a non-empty one and the fixed fallback otherwise.
\<close>

lemma update_rejected_toast:
  "updateAccount_settled (Rejected e) r s =
     (s\<lparr>trace := trace s @ [DispatchEvent (ShowToastEvent ''Error''
          (Some (case body_message_opt e of None \<Rightarrow> ''Update failed''
                 | Some m \<Rightarrow> if m = '''' then ''Update failed'' else m)) ''error'')],
        isLoading := False\<rparr>, None)"
  by (simp add: updateAccount_settled_def updateAccount_catch_def handler_defs split: option.splits)

lemma delete_rejected_toast:
  "deleteAccount_settled (Rejected e) r s =
     (s\<lparr>trace := trace s @ [DispatchEvent (ShowToastEvent ''Error''
          (Some (case body_message_opt e of None \<Rightarrow> ''Delete failed''
                 | Some m \<Rightarrow> if m = '''' then ''Delete failed'' else m)) ''error'')],
        isLoading := False\<rparr>, None)"
  by (simp add: deleteAccount_settled_def deleteAccount_catch_def handler_defs split: option.splits)

text \<open>A rejected create whose error has a body dispatches one toast with the body's
  message as it is, present or not.\<close>

lemma create_rejected_toast:
  "body e = Some b \<Longrightarrow> createAccount_settled (Rejected e) r s =
     (s\<lparr>trace := trace s @ [DispatchEvent (ShowToastEvent ''Error'' (message b) ''error'')],
        isLoading := False\<rparr>, None)"
  by (simp add: createAccount_settled_def createAccount_catch_def handler_defs split: option.splits)

subsection \<open>The component's contract\<close>

text \<open>
  C1. Submitting the create form while the name field is the empty string dispatches
  exactly one error toast and nothing else: no Apex call is made, and the five
  create-form fields, the loading flag and the cached collection keep their values.
\<close>

theorem create_empty_name_rejected:
  assumes "accountName s = ''''"
  shows "handleCreateAccount s =
           s\<lparr>trace := trace s @
              [DispatchEvent (ShowToastEvent ''Error'' (Some ''Account name is required'') ''error'')]\<rparr> \<and>
         filter is_apex_call (trace (handleCreateAccount s)) = filter is_apex_call (trace s) \<and>
         create_form (handleCreateAccount s) = create_form s \<and>
         isLoading (handleCreateAccount s) = isLoading s \<and>
         accounts (handleCreateAccount s) = accounts s"
  using assms by (simp add: handleCreateAccount_def handler_defs)

theorem create_empty_name_rejected_witness:
  "accountName initial = '''' \<and>
   trace (handleCreateAccount initial) =
     [DispatchEvent (ShowToastEvent ''Error'' (Some ''Account name is required'') ''error'')] \<and>
   filter is_apex_call (trace (handleCreateAccount initial)) = [] \<and>
   create_form (handleCreateAccount initial) = ('''', '''', '''', '''', '''') \<and>
   isLoading (handleCreateAccount initial) = False \<and>
   accounts (handleCreateAccount initial) = None"
  using create_empty_name_rejected [of initial] by (simp add: initial_def create_form_def)


text \<open>
  C2. A rejected remote call should dispatch exactly one error toast carrying the
  service's message, or a generic fallback when there is none. The update and delete
  chains do so; the create chain reads \<open>error.body.message\<close> unguarded and has no
  fallback. When the create call is rejected with an error that has no body, the catch
  callback throws a TypeError and no toast is dispatched at all; when the body has no
  message, the toast is dispatched with an undefined message.
\<close>

theorem create_rejected_no_fallback:
  "createAccount_settled (Rejected no_body) Resolved (handleCreateAccount filled) =
     ((handleCreateAccount filled)\<lparr>isLoading := False\<rparr>, Some TypeError) \<and>
   filter is_toast (trace (fst (createAccount_settled (Rejected no_body) Resolved
      (handleCreateAccount filled)))) = [] \<and>
   filter is_toast (trace (fst (createAccount_settled (Rejected no_message) Resolved
      (handleCreateAccount filled)))) =
     [DispatchEvent (ShowToastEvent ''Error'' None ''error'')]"
  by (simp add: createAccount_settled_def createAccount_catch_def handleCreateAccount_def
      filled_def initial_def no_body_def no_message_def handler_defs)

text \<open>
  C3. After the wired handler has run on a result that carries data or an error,
  exactly one of the cached collection and the error slot holds a value. On a result
  that carries neither, as the wire adapter provisions before the first fetch has
  completed, the handler leaves both slots as they were and dispatches nothing.
\<close>

theorem wired_exactly_one:
  "(data result \<noteq> None \<or> wire_error result \<noteq> None \<longrightarrow>
      exactly_one_populated (wiredAccounts result s)) \<and>
   (data result = None \<and> wire_error result = None \<longrightarrow>
      accounts (wiredAccounts result s) = accounts s \<and>
      error (wiredAccounts result s) = error s \<and>
      trace (wiredAccounts result s) = trace s)"
  by (cases "data result"; cases "wire_error result")
    (simp_all add: exactly_one_populated_def wiredAccounts_def Let_def handler_defs)

theorem wired_exactly_one_witness:
  "exactly_one_populated (wiredAccounts \<lparr>data = Some [acme], wire_error = None\<rparr> initial) \<and>
   exactly_one_populated (wiredAccounts \<lparr>data = None, wire_error = Some no_body\<rparr> initial) \<and>
   accounts (wiredAccounts \<lparr>data = None, wire_error = None\<rparr> listed) = Some [acme] \<and>
   error (wiredAccounts \<lparr>data = None, wire_error = None\<rparr> listed) = None"
  using wired_exactly_one [of "\<lparr>data = Some [acme], wire_error = None\<rparr>" initial]
    wired_exactly_one [of "\<lparr>data = None, wire_error = Some no_body\<rparr>" initial]
    wired_exactly_one [of "\<lparr>data = None, wire_error = None\<rparr>" listed]
  by (simp add: listed_def initial_def)

text \<open>
  Without the restriction to results that carry data or an error the property fails:
  on the freshly constructed component, a result that carries neither leaves both
  slots unset.
\<close>

theorem wired_neither_counterexample:
  "\<not> exactly_one_populated (wiredAccounts \<lparr>data = None, wire_error = None\<rparr> initial)"
  by (simp add: exactly_one_populated_def wiredAccounts_def Let_def initial_def)

text \<open>
  C4. When the fetch returns a collection, the handler clears the error slot and
  caches exactly that collection, unchanged and in the same order, dispatching
  nothing. When the fetch fails, the handler unsets the cached collection, stores the
  error and dispatches one error toast.
\<close>

theorem wired_success_and_failure:
  "accounts (wiredAccounts \<lparr>data = Some xs, wire_error = e\<rparr> s) = Some xs \<and>
   error (wiredAccounts \<lparr>data = Some xs, wire_error = e\<rparr> s) = None \<and>
   trace (wiredAccounts \<lparr>data = Some xs, wire_error = e\<rparr> s) = trace s \<and>
   accounts (wiredAccounts \<lparr>data = None, wire_error = Some e'\<rparr> s) = None \<and>
   error (wiredAccounts \<lparr>data = None, wire_error = Some e'\<rparr> s) = Some e' \<and>
   trace (wiredAccounts \<lparr>data = None, wire_error = Some e'\<rparr> s) =
     trace s @ [DispatchEvent (ShowToastEvent ''Error'' (Some ''Error loading accounts'') ''error'')]"
  by (simp add: wiredAccounts_def Let_def handler_defs)



text \<open>
  C6. Start-edit on id \<open>X\<close> with a cached collection present. If the collection holds a
  record with id \<open>X\<close>, the first such record \<open>r\<close> is the one found: the editing id
  becomes \<open>X\<close> and the five edit fields become \<open>r\<close>'s name, industry, phone,
  description and site, each the empty string when \<open>r\<close> lacks the field; nothing else
  changes. If it holds none, the only change is one error toast.
\<close>

theorem start_edit_lookup:
  assumes "accounts s = Some as"
  shows "(X \<in> Id' ` set as \<longrightarrow>
           (\<exists>r. r \<in> set as \<and> Id' r = X \<and> find (\<lambda>a. Id' a = X) as = Some r \<and>
              handleStartEdit (Some X) s =
                Inr (s\<lparr>editRecordId := Some X,
                       editName := (case Name r of None \<Rightarrow> '''' | Some v \<Rightarrow> v),
                       editIndustry := (case Industry r of None \<Rightarrow> '''' | Some v \<Rightarrow> v),
                       editPhone := (case Phone r of None \<Rightarrow> '''' | Some v \<Rightarrow> v),
                       editDescription := (case Description r of None \<Rightarrow> '''' | Some v \<Rightarrow> v),
                       editSite := (case Site r of None \<Rightarrow> '''' | Some v \<Rightarrow> v)\<rparr>))) \<and>
         (X \<notin> Id' ` set as \<longrightarrow>
            handleStartEdit (Some X) s =
              Inr (s\<lparr>trace := trace s @
                     [DispatchEvent (ShowToastEvent ''Error''
                        (Some ''Account not found in the current list'') ''error'')]\<rparr>))"
proof (cases "find (\<lambda>a. Id' a = X) as")
  case None
  then have "X \<notin> Id' ` set as"
    by (auto simp: find_None_iff)
  with None assms show ?thesis
    by (simp add: handleStartEdit_def showToast_def emit_def)
next
  case (Some r)
  then have "r \<in> set as" and "Id' r = X"
    by (auto simp: find_Some_iff)
  then have "X \<in> Id' ` set as"
    by auto
  with Some assms \<open>r \<in> set as\<close> \<open>Id' r = X\<close> show ?thesis
    by (simp add: handleStartEdit_def or_else_empty)
qed

theorem start_edit_lookup_witness:
  "accounts listed = Some [acme] \<and>
   handleStartEdit (Some ''1'') listed =
     Inr (listed\<lparr>editRecordId := Some ''1'', editName := ''Acme'', editIndustry := '''',
            editPhone := '''', editDescription := '''', editSite := ''''\<rparr>) \<and>
   handleStartEdit (Some ''999'') listed =
     Inr (listed\<lparr>trace := [DispatchEvent (ShowToastEvent ''Error''
            (Some ''Account not found in the current list'') ''error'')]\<rparr>)"
  using start_edit_lookup [of listed "[acme]" "''1''"] start_edit_lookup [of listed "[acme]" "''999''"]
  by (simp add: listed_def initial_def acme_def)

text \<open>
  C7. A create with a non-empty name, a save with an editing id and a non-empty name,
  and a confirmed delete each set the loading flag and then issue their Apex call.
  When the chain of any of the three has run, from whatever state \<open>t\<close> it resumes in
  and however the call and the refresh settled, the loading flag is false; this holds
  also when the catch callback itself throws.
\<close>

theorem loading_set_then_cleared:
  "(accountName s \<noteq> '''' \<longrightarrow>
      isLoading (handleCreateAccount s) \<and>
      trace (handleCreateAccount s) =
        trace s @ [ApexCall (CreateAccount (accountName s) (accountIndustry s) (accountPhone s)
                     (accountDescription s) (accountSite s))] \<and>
      \<not> isLoading (fst (createAccount_settled call refresh (handleCreateAccount s)))) \<and>
   (editRecordId s = Some i \<and> i \<noteq> '''' \<and> editName s \<noteq> '''' \<longrightarrow>
      isLoading (handleSaveEdit s) \<and>
      trace (handleSaveEdit s) =
        trace s @ [ApexCall (UpdateAccount (Some i) (editName s) (editIndustry s) (editPhone s)
                     (editDescription s) (editSite s))] \<and>
      \<not> isLoading (fst (updateAccount_settled call refresh (handleSaveEdit s)))) \<and>
   (confirmed \<longrightarrow>
      isLoading (handleDeleteAccount accountId confirmed s) \<and>
      trace (handleDeleteAccount accountId confirmed s) =
        trace s @ [ApexCall (DeleteAccount accountId)] \<and>
      \<not> isLoading (fst (deleteAccount_settled call refresh
                          (handleDeleteAccount accountId confirmed s)))) \<and>
   \<not> isLoading (fst (createAccount_settled call refresh t)) \<and>
   \<not> isLoading (fst (updateAccount_settled call refresh t)) \<and>
   \<not> isLoading (fst (deleteAccount_settled call refresh t))"
  by (simp add: settled_clears_loading createAccount_settled_def updateAccount_settled_def
      deleteAccount_settled_def handleCreateAccount_def handleSaveEdit_def
      handleDeleteAccount_def emit_def truthy_def truthy_opt_def)

theorem loading_set_then_cleared_witness:
  "isLoading (handleCreateAccount filled) \<and>
   \<not> isLoading (fst (createAccount_settled (Rejected no_body) Resolved (handleCreateAccount filled))) \<and>
   isLoading (handleSaveEdit editing) \<and>
   \<not> isLoading (fst (updateAccount_settled Resolved (Rejected no_body) (handleSaveEdit editing))) \<and>
   isLoading (handleDeleteAccount (Some ''1'') True listed) \<and>
   \<not> isLoading (fst (deleteAccount_settled Resolved Resolved
                      (handleDeleteAccount (Some ''1'') True listed)))"
proof -
  have create: "accountName filled \<noteq> ''''"
    by (simp add: filled_def initial_def)
  have save: "editRecordId editing = Some ''1'' \<and> ''1'' \<noteq> '''' \<and> editName editing \<noteq> ''''"
    by (simp add: editing_def listed_def initial_def)
  show ?thesis
    using create save
      loading_set_then_cleared [where s = filled and call = "Rejected no_body" and refresh = Resolved]
      loading_set_then_cleared [where s = editing and i = "''1''" and call = Resolved
        and refresh = "Rejected no_body"]
      loading_set_then_cleared [where s = listed and call = Resolved and refresh = Resolved
        and confirmed = True and accountId = "Some ''1''"]
    by simp
qed

text \<open>
  C8. From every state, cancel unsets the editing id, empties the five edit fields and
  has no effect outside the component. In particular start-edit on any id followed by
  cancel leaves the edit form as the class initialises it, and no Apex call or refresh
  has been made on the way.
\<close>

theorem cancel_clears_edit_form:
  "edit_form (handleCancelEdit s) = (None, '''', '''', '''', '''', '''') \<and>
   edit_form (handleCancelEdit s) = edit_form initial \<and>
   trace (handleCancelEdit s) = trace s \<and>
   edit_form (handleCancelEdit (after_handler s (handleStartEdit X s))) = edit_form initial \<and>
   filter is_apex_call (trace (handleCancelEdit (after_handler s (handleStartEdit X s)))) =
     filter is_apex_call (trace s) \<and>
   filter is_refresh (trace (handleCancelEdit (after_handler s (handleStartEdit X s)))) =
     filter is_refresh (trace s)"
  by (simp add: handleCancelEdit_def edit_form_def initial_def after_handler_def
      handleStartEdit_def showToast_def emit_def split: option.splits sum.splits)

text \<open>
  C9. A delete action whose confirmation prompt is declined changes nothing: the
  component, its effect trace included, is what it was, so no remote call has been
  made, no toast dispatched, and the loading flag and the cached collection are
  untouched.
\<close>

theorem delete_declined_no_effect:
  "handleDeleteAccount accountId False s = s \<and>
   trace (handleDeleteAccount accountId False s) = trace s \<and>
   isLoading (handleDeleteAccount accountId False s) = isLoading s \<and>
   accounts (handleDeleteAccount accountId False s) = accounts s"
  by (simp add: handleDeleteAccount_def)

text \<open>
  C10. Start-edit completes exactly when the cached collection is present. While it is
  unset the lookup throws a TypeError before the not-found branch can run, so no toast
  is dispatched; that is the state a failed fetch leaves. While it is present the
  handler completes for every id.
\<close>

theorem start_edit_needs_collection:
  "(accounts s = None \<longrightarrow> handleStartEdit X s = Inl TypeError) \<and>
   (accounts s \<noteq> None \<longrightarrow> (\<exists>s'. handleStartEdit X s = Inr s')) \<and>
   handleStartEdit X (wiredAccounts \<lparr>data = None, wire_error = Some e\<rparr> s) = Inl TypeError"
  by (auto simp: handleStartEdit_def wiredAccounts_def Let_def showToast_def emit_def
      split: option.splits)

theorem start_edit_needs_collection_witness:
  "accounts initial = None \<and> handleStartEdit (Some ''1'') initial = Inl TypeError \<and>
   accounts listed \<noteq> None \<and> (\<exists>s'. handleStartEdit (Some ''999'') listed = Inr s') \<and>
   handleStartEdit (Some ''1'') (wiredAccounts \<lparr>data = None, wire_error = Some no_body\<rparr> listed) =
     Inl TypeError"
  using start_edit_needs_collection [of initial "Some ''1''" no_body]
    start_edit_needs_collection [of listed "Some ''999''" no_body]
    start_edit_needs_collection [of listed "Some ''1''" no_body]
  by (simp add: listed_def initial_def)

end
